theory Spec2Isabelle
  imports Main "HOL-Library.Word"
begin

section \<open>The default worker-thread count (\<^verbatim>\<open>init\<close>, root.go lines 113-126)\<close>

text \<open>
  \<^verbatim>\<open>init\<close> reads the number of CPUs and the environment variable \<^verbatim>\<open>SEQKIT_THREADS\<close>
  and computes the default of the \<^verbatim>\<open>threads\<close> flag from them. The two reads are the
  parameters of the model; Go's \<^verbatim>\<open>int\<close> is taken as the 64-bit integer of the usual
  platforms. No arithmetic is done on the value, so it is an \<open>int\<close> here and the only
  place where the width shows is the range check of \<^verbatim>\<open>strconv.Atoi\<close>.
\<close>

subsection \<open>\<^verbatim>\<open>strconv.Atoi\<close>\<close>

text \<open>
  \<^verbatim>\<open>strconv.Atoi\<close> belongs to Go's standard library, not to the repository. It is
  modelled after its documentation: \<^verbatim>\<open>Atoi(s)\<close> is \<^verbatim>\<open>ParseInt(s, 10, 0)\<close>; the
  string may begin with one sign, \<^verbatim>\<open>+\<close> or \<^verbatim>\<open>-\<close>; an empty string, a string with no
  digit after the sign, and a string with a character that is not a decimal digit are
  syntax errors; a value that a signed integer of \<^verbatim>\<open>IntSize\<close> bits cannot hold is a
  range error. \<^verbatim>\<open>init\<close> looks at \<^verbatim>\<open>err == nil\<close> only, never at the kind of error.
\<close>

datatype NumError = ErrSyntax | ErrRange

definition IntSize :: nat where
  "IntSize = 64"

definition isDigit :: "char \<Rightarrow> bool" where
  "isDigit ch = (48 \<le> (of_char ch :: nat) \<and> (of_char ch :: nat) \<le> 57)"

definition digitVal :: "char \<Rightarrow> nat" where
  "digitVal ch = of_char ch - 48"

text \<open>The digit loop: \<^verbatim>\<open>n = n*10 + d\<close> for each character, left to right.\<close>

fun parseDigits :: "nat \<Rightarrow> string \<Rightarrow> nat option" where
  "parseDigits n [] = Some n"
| "parseDigits n (ch # s) =
     (if isDigit ch then parseDigits (n * 10 + digitVal ch) s else None)"

definition ParseInt :: "string \<Rightarrow> NumError + int" where
  "ParseInt s =
     (if s = [] then Inl ErrSyntax
      else
        let neg = (hd s = CHR ''-'');
            digits = (if hd s = CHR ''+'' \<or> hd s = CHR ''-'' then tl s else s)
        in if digits = [] then Inl ErrSyntax
           else case parseDigits 0 digits of
             None \<Rightarrow> Inl ErrSyntax
           | Some un \<Rightarrow>
               let cutoff = (2 :: nat) ^ (IntSize - 1)
               in if \<not> neg \<and> un \<ge> cutoff then Inl ErrRange
                  else if neg \<and> un > cutoff then Inl ErrRange
                  else Inr (if neg then - int un else int un))"

definition Atoi :: "string \<Rightarrow> NumError + int" where
  "Atoi s = ParseInt s"

subsection \<open>The resolution\<close>

text \<open>
  \<^verbatim>\<open>
  defaultThreads := runtime.NumCPU()
  if defaultThreads > 4 { defaultThreads = 4 }
  envThreads := os.Getenv("SEQKIT_THREADS")
  if envThreads != "" {
      t, err := strconv.Atoi(envThreads)
      if err == nil { defaultThreads = t }
  }
  if defaultThreads < 1 { defaultThreads = runtime.NumCPU() }
  \<close>
  \<open>numCPU\<close> stands for \<^verbatim>\<open>runtime.NumCPU()\<close> and \<open>envThreads\<close> for
  \<^verbatim>\<open>os.Getenv("SEQKIT_THREADS")\<close>; the result is the value bound to the \<^verbatim>\<open>threads\<close>
  flag on line 128.
\<close>

definition capThreads :: "int \<Rightarrow> int" where
  "capThreads numCPU = (if numCPU > 4 then 4 else numCPU)"

definition envOverride :: "string \<Rightarrow> int \<Rightarrow> int" where
  "envOverride envThreads defaultThreads =
     (if envThreads \<noteq> [] then
        (case Atoi envThreads of
           Inr t \<Rightarrow> t
         | Inl err \<Rightarrow> defaultThreads)
      else defaultThreads)"

definition resolveDefaultThreads :: "int \<Rightarrow> string \<Rightarrow> int" where
  "resolveDefaultThreads numCPU envThreads =
     (let defaultThreads = capThreads numCPU;
          defaultThreads = envOverride envThreads defaultThreads
      in if defaultThreads < 1 then numCPU else defaultThreads)"

subsection \<open>Decimal numerals\<close>

text \<open>
  The decimal numeral of an integer, with a minus sign for a negative one. It is not
  part of the program: it names, for every integer, one value of \<^verbatim>\<open>SEQKIT_THREADS\<close>
  that \<^verbatim>\<open>strconv.Atoi\<close> reads as that integer.
\<close>

fun decimalNat :: "nat \<Rightarrow> string" where
  "decimalNat n =
     (if n < 10 then [char_of (48 + n)]
      else decimalNat (n div 10) @ [char_of (48 + n mod 10)])"

definition decimal :: "int \<Rightarrow> string" where
  "decimal n = (if n < 0 then CHR ''-'' # decimalNat (nat (- n)) else decimalNat (nat n))"

section \<open>The entry point (\<^verbatim>\<open>Execute\<close>, root.go lines 70-75)\<close>

text \<open>
  \<^verbatim>\<open>
  func Execute() {
      if err := RootCmd.Execute(); err != nil {
          fmt.Println(err)
          os.Exit(-1)
      }
  }
  \<close>
  The process is seen through its two output streams. \<^verbatim>\<open>RootCmd.Execute()\<close> is
  cobra's: it parses the arguments, runs the matched command's callback and returns
  the error of either, so it is a parameter here, a function on the streams that
  returns the error (its message) or \<open>None\<close> for \<^verbatim>\<open>nil\<close>. \<^verbatim>\<open>Execute\<close> either
  returns to its caller or ends the process through \<^verbatim>\<open>os.Exit\<close>.
\<close>

record World =
  stdout :: string
  stderr :: string

datatype Outcome = Returned | Exited int

definition newline :: char where
  "newline = CHR 0x0A"

text \<open>\<^verbatim>\<open>fmt.Println(err)\<close>: the message of the error and a newline, on standard output.\<close>

definition Println :: "string \<Rightarrow> World \<Rightarrow> World" where
  "Println msg w = w\<lparr>stdout := stdout w @ msg @ [newline]\<rparr>"

definition Execute :: "(World \<Rightarrow> string option \<times> World) \<Rightarrow> World \<Rightarrow> Outcome \<times> World" where
  "Execute rootCmdExecute w =
     (case rootCmdExecute w of
        (Some err, w') \<Rightarrow> (Exited (- 1), Println err w')
      | (None, w') \<Rightarrow> (Returned, w'))"

text \<open>
  The status the parent process observes. \<^verbatim>\<open>main.main\<close> only calls \<^verbatim>\<open>Execute\<close>
  (the comment on line 69), and a Go program whose \<^verbatim>\<open>main\<close> returns ends with
  status 0; the argument of \<^verbatim>\<open>os.Exit\<close> reaches the parent cut to its low eight bits.
\<close>

fun exitStatus :: "Outcome \<Rightarrow> 8 word" where
  "exitStatus Returned = 0"
| "exitStatus (Exited code) = word_of_int code"

text \<open>
  Two sample runs of \<^verbatim>\<open>RootCmd.Execute()\<close> for the concrete evaluations: one that
  fails on an unknown flag, after cobra has reported it on standard error, and one
  that succeeds after its command has written a line.
\<close>

definition unknownFlagRun :: "World \<Rightarrow> string option \<times> World" where
  "unknownFlagRun w =
     (Some ''unknown flag: --foo'', w\<lparr>stderr := stderr w @ ''Error: unknown flag: --foo''\<rparr>)"

definition versionRun :: "World \<Rightarrow> string option \<times> World" where
  "versionRun w = (None, w\<lparr>stdout := stdout w @ ''seqkit v2''\<rparr>)"

definition emptyWorld :: World where
  "emptyWorld = \<lparr>stdout = [], stderr = []\<rparr>"

section \<open>The command tree and the usage template\<close>

subsection \<open>Commands and groups, as the template reads them\<close>

text \<open>
  The fields of \<^verbatim>\<open>cobra.Group\<close> and \<^verbatim>\<open>cobra.Command\<close> that the subcommand block of
  the template depends on. \<open>hasRun\<close> says that \<^verbatim>\<open>Run\<close> or \<^verbatim>\<open>RunE\<close> is set.
  Commands are pointers in Go and cobra compares them by identity, so a command
  carries its address \<open>addr\<close>, and \<open>helpCommand\<close> holds the address of the node's help
  command (\<open>None\<close> for \<^verbatim>\<open>nil\<close>). \<open>commands\<close> is the list of children in the order in
  which \<^verbatim>\<open>Commands()\<close> hands them to the template (cobra sorts them by name unless
  sorting is switched off). The methods that the template calls on a command are
  cobra's, library code outside the repository; each is modelled after what the
  library does.
\<close>

record Group =
  ID :: string
  Title :: string

datatype Command = Command
  (Use: string)
  (Short: string)
  (GroupID: string)
  (Hidden: bool)
  (Deprecated: string)
  (hasRun: bool)
  (addr: nat)
  (commands: "Command list")
  (commandgroups: "Group list")
  (helpCommand: "nat option")

text \<open>\<^verbatim>\<open>Name()\<close>: the first word of \<^verbatim>\<open>Use\<close>.\<close>

definition Name :: "Command \<Rightarrow> string" where
  "Name c = takeWhile (\<lambda>ch. ch \<noteq> CHR '' '') (Use c)"

text \<open>
  \<^verbatim>\<open>IsAvailableCommand()\<close>: not deprecated, not hidden, not the help command of its
  parent, and either runnable or with an available subcommand. The first argument is
  the \<open>helpCommand\<close> of the parent (\<open>None\<close> for a command without parent).
  \<^verbatim>\<open>HasAvailableSubCommands()\<close> is the loop over the children.
\<close>

fun IsAvailableCommand :: "nat option \<Rightarrow> Command \<Rightarrow> bool" where
  "IsAvailableCommand parentHelp (Command use short gid hid depr run a subs groups help) =
     (if depr \<noteq> [] \<or> hid then False
      else if parentHelp = Some a then False
      else if run \<or> list_ex (IsAvailableCommand help) subs then True
      else False)"

definition HasAvailableSubCommands :: "Command \<Rightarrow> bool" where
  "HasAvailableSubCommands c = list_ex (IsAvailableCommand (helpCommand c)) (commands c)"

text \<open>
  \<^verbatim>\<open>AllChildCommandsHaveGroup()\<close>: false at the first child that is available, or is
  the help command, and has an empty \<^verbatim>\<open>GroupID\<close>.
\<close>

fun childrenHaveGroup :: "nat option \<Rightarrow> Command list \<Rightarrow> bool" where
  "childrenHaveGroup help [] = True"
| "childrenHaveGroup help (sub # subs) =
     (if (IsAvailableCommand help sub \<or> help = Some (addr sub)) \<and> GroupID sub = [] then False
      else childrenHaveGroup help subs)"

definition AllChildCommandsHaveGroup :: "Command \<Rightarrow> bool" where
  "AllChildCommandsHaveGroup c = childrenHaveGroup (helpCommand c) (commands c)"

text \<open>
  \<^verbatim>\<open>NamePadding()\<close> of a child: the longest name among the children of its parent
  (kept by \<^verbatim>\<open>AddCommand\<close>), and at least 11. \<^verbatim>\<open>rpad\<close> pads with blanks on the right.
\<close>

definition minNamePadding :: nat where
  "minNamePadding = 11"

definition commandsMaxNameLen :: "Command \<Rightarrow> nat" where
  "commandsMaxNameLen c = foldr (\<lambda>sub m. max (length (Name sub)) m) (commands c) 0"

definition NamePadding :: "Command \<Rightarrow> nat" where
  "NamePadding parent =
     (if minNamePadding > commandsMaxNameLen parent then minNamePadding
      else commandsMaxNameLen parent)"

definition rpad :: "string \<Rightarrow> nat \<Rightarrow> string" where
  "rpad s padding = s @ replicate (padding - length s) (CHR '' '')"

subsection \<open>The subcommand block of \<^verbatim>\<open>usageTemplate\<close> (root.go lines 154-163)\<close>

text \<open>
  \<^verbatim>\<open>
  {{if .HasAvailableSubCommands}}{{$cmds := .Commands}}{{if eq (len .Groups) 0}}

  Available Commands:{{range $cmds}}{{if (or .IsAvailableCommand (eq .Name "help"))}}
    {{rpad .Name .NamePadding }} {{.Short}}{{end}}{{end}}{{else}}{{range $group := .Groups}}

  {{.Title}}{{range $cmds}}{{if (and (eq .GroupID $group.ID) (or .IsAvailableCommand (eq .Name "help")))}}
    {{rpad .Name .NamePadding }} {{.Short}}{{end}}{{end}}{{end}}{{if not .AllChildCommandsHaveGroup}}

  Additional Commands:{{range $cmds}}{{if (and (eq .GroupID "") (or .IsAvailableCommand (eq .Name "help")))}}
    {{rpad .Name .NamePadding }} {{.Short}}{{end}}{{end}}{{end}}{{end}}{{end}}
  \<close>
  The block emits headings, each followed by one line per child that passes the test
  of its \<^verbatim>\<open>range\<close>. \<open>subcommandSections\<close> is the block with every heading kept
  together with the children listed under it, and \<open>usageSubcommands\<close> is the text.
\<close>

type_synonym Section = "string \<times> Command list"

text \<open>The test \<^verbatim>\<open>(or .IsAvailableCommand (eq .Name "help"))\<close> on a child of \<open>c\<close>.\<close>

definition listed :: "Command \<Rightarrow> Command \<Rightarrow> bool" where
  "listed c sub = (IsAvailableCommand (helpCommand c) sub \<or> Name sub = ''help'')"

definition groupSection :: "Command \<Rightarrow> Group \<Rightarrow> Section" where
  "groupSection c grp =
     (Title grp, filter (\<lambda>sub. GroupID sub = ID grp \<and> listed c sub) (commands c))"

definition additionalSection :: "Command \<Rightarrow> Section" where
  "additionalSection c =
     (''Additional Commands:'', filter (\<lambda>sub. GroupID sub = [] \<and> listed c sub) (commands c))"

definition availableSection :: "Command \<Rightarrow> Section" where
  "availableSection c = (''Available Commands:'', filter (listed c) (commands c))"

definition subcommandSections :: "Command \<Rightarrow> Section list" where
  "subcommandSections c =
     (if HasAvailableSubCommands c then
        (if length (commandgroups c) = 0 then [availableSection c]
         else map (groupSection c) (commandgroups c)
              @ (if \<not> AllChildCommandsHaveGroup c then [additionalSection c] else []))
      else [])"

definition commandLine :: "Command \<Rightarrow> Command \<Rightarrow> string" where
  "commandLine c sub =
     [newline] @ ''  '' @ rpad (Name sub) (NamePadding c) @ '' '' @ Short sub"

definition renderSection :: "Command \<Rightarrow> Section \<Rightarrow> string" where
  "renderSection c sec =
     [newline, newline] @ fst sec @ concat (map (commandLine c) (snd sec))"

definition usageSubcommands :: "Command \<Rightarrow> string" where
  "usageSubcommands c = concat (map (renderSection c) (subcommandSections c))"

text \<open>The headings of the block, each with the names of the children listed under it.\<close>

definition sectionNames :: "Command \<Rightarrow> (string \<times> string list) list" where
  "sectionNames c = map (\<lambda>sec. (fst sec, map Name (snd sec))) (subcommandSections c)"

text \<open>The children that the rendered block lists, under whatever heading.\<close>

definition renderedCommands :: "Command \<Rightarrow> Command list" where
  "renderedCommands c = concat (map snd (subcommandSections c))"

subsection \<open>The root command (\<^verbatim>\<open>RootCmd\<close> and \<^verbatim>\<open>init\<close>, root.go lines 34-66 and 78-141)\<close>

text \<open>
  \<^verbatim>\<open>AddGroup\<close> appends to the registered groups, \<^verbatim>\<open>SetHelpCommand\<close> stores the
  pointer, \<^verbatim>\<open>AddCommand\<close> appends children; none of them checks a \<^verbatim>\<open>GroupID\<close>.
  \<^verbatim>\<open>init\<close> of root.go attaches no child: the subcommands are attached by their own
  files, so they are the argument of \<open>AddCommand\<close> below.
\<close>

definition AddGroup :: "Command \<Rightarrow> Group list \<Rightarrow> Command" where
  "AddGroup c groups =
     Command (Use c) (Short c) (GroupID c) (Hidden c) (Deprecated c) (hasRun c) (addr c)
       (commands c) (commandgroups c @ groups) (helpCommand c)"

definition SetHelpCommand :: "Command \<Rightarrow> Command \<Rightarrow> Command" where
  "SetHelpCommand c cmd =
     Command (Use c) (Short c) (GroupID c) (Hidden c) (Deprecated c) (hasRun c) (addr c)
       (commands c) (commandgroups c) (Some (addr cmd))"

definition AddCommand :: "Command \<Rightarrow> Command list \<Rightarrow> Command" where
  "AddCommand c cmds =
     Command (Use c) (Short c) (GroupID c) (Hidden c) (Deprecated c) (hasRun c) (addr c)
       (commands c @ cmds) (commandgroups c) (helpCommand c)"

text \<open>The literal of line 34 (its long description plays no part in the block).\<close>

definition RootCmdLiteral :: Command where
  "RootCmdLiteral =
     Command ''seqkit''
       ''a cross-platform and ultrafast toolkit for FASTA/Q file manipulation''
       [] False [] False 0 [] [] None"

text \<open>The command of line 139: \<^verbatim>\<open>&cobra.Command{Hidden: true}\<close>.\<close>

definition hiddenHelpCmd :: Command where
  "hiddenHelpCmd = Command [] [] [] True [] False 1 [] [] None"

definition seqkitGroups :: "Group list" where
  "seqkitGroups =
     [\<lparr>ID = ''basic'', Title = ''Commands for Basic Operation:''\<rparr>,
      \<lparr>ID = ''format'', Title = ''Commands for Format Conversion:''\<rparr>,
      \<lparr>ID = ''search'', Title = ''Commands for Searching:''\<rparr>,
      \<lparr>ID = ''set'', Title = ''Commands for Set Operation:''\<rparr>,
      \<lparr>ID = ''edit'', Title = ''Commands for Edit:''\<rparr>,
      \<lparr>ID = ''order'', Title = ''Commands for Ordering:''\<rparr>,
      \<lparr>ID = ''bam'', Title = ''Commands for BAM Processing:''\<rparr>,
      \<lparr>ID = ''misc'', Title = ''Commands for Miscellaneous:''\<rparr>]"

definition RootCmd :: Command where
  "RootCmd = SetHelpCommand (AddGroup RootCmdLiteral seqkitGroups) hiddenHelpCmd"

subsection \<open>The group check at the start of a run\<close>

text \<open>
  \<^verbatim>\<open>Execute\<close> of root.go hands the run to cobra's \<^verbatim>\<open>RootCmd.Execute()\<close> (line 71).
  Before it parses the arguments, and so before any help text is rendered, cobra
  runs \<^verbatim>\<open>checkCommandGroups\<close> on the root: for every child of every node of the tree,
  a \<^verbatim>\<open>GroupID\<close> that is not empty and that \<^verbatim>\<open>ContainsGroup\<close> does not find among
  the groups registered on that node is a panic. Both are library code, modelled
  after what the library does. \<open>checkCommandGroups\<close> is true when the check returns
  and false when it panics. \<open>nodes\<close> lists the nodes of a tree, the root included.
\<close>

definition ContainsGroup :: "Command \<Rightarrow> string \<Rightarrow> bool" where
  "ContainsGroup c groupID = list_ex (\<lambda>grp. ID grp = groupID) (commandgroups c)"

fun checkCommandGroups :: "Command \<Rightarrow> bool" where
  "checkCommandGroups (Command use short gid hid depr run a subs groups help) =
     list_all (\<lambda>sub.
         \<not> (GroupID sub \<noteq> [] \<and> \<not> list_ex (\<lambda>grp. ID grp = GroupID sub) groups)
         \<and> checkCommandGroups sub) subs"

fun nodes :: "Command \<Rightarrow> Command list" where
  "nodes (Command use short gid hid depr run a subs groups help) =
     Command use short gid hid depr run a subs groups help # concat (map nodes subs)"

text \<open>
  The subcommand block rendered for the node \<open>c\<close> in a run on the tree \<open>root\<close>:
  \<open>None\<close> when the run panics at the check and renders nothing.
\<close>

definition helpInRun :: "Command \<Rightarrow> Command \<Rightarrow> Section list option" where
  "helpInRun root c = (if checkCommandGroups root then Some (subcommandSections c) else None)"

subsection \<open>The two conditions of the specification\<close>

text \<open>
  The specification's condition for the flat listing: no registered group has a member
  among the direct children of the node.
\<close>

definition noGroupHasMember :: "Command \<Rightarrow> bool" where
  "noGroupHasMember c =
     list_all (\<lambda>grp. list_all (\<lambda>sub. GroupID sub \<noteq> ID grp) (commands c)) (commandgroups c)"

text \<open>
  The specification's invariant, for the children of one node: a \<^verbatim>\<open>GroupID\<close> that is
  not empty is the \<^verbatim>\<open>ID\<close> of a group registered on the node.
\<close>

definition groupsRegistered :: "Command \<Rightarrow> bool" where
  "groupsRegistered c =
     list_all (\<lambda>sub. GroupID sub = [] \<or> list_ex (\<lambda>grp. ID grp = GroupID sub) (commandgroups c))
       (commands c)"

subsection \<open>Sample commands\<close>

text \<open>
  The subcommands of seqkit are attached by files of their own. The concrete
  evaluations below use these commands: a runnable command in the group \<^verbatim>\<open>basic\<close>,
  two runnable commands without group, a hidden command named \<^verbatim>\<open>help\<close>, a runnable
  command whose group is registered nowhere, and a parent without \<^verbatim>\<open>Run\<close> that is
  not the root.
\<close>

definition seqCmd :: Command where
  "seqCmd = Command ''seq [flags]'' ''transform sequences'' ''basic'' False [] True 2 [] [] None"

definition versionCmd :: Command where
  "versionCmd = Command ''version'' ''print version information'' [] False [] True 3 [] [] None"

definition statsCmd :: Command where
  "statsCmd = Command ''stats'' ''simple statistics'' [] False [] True 7 [] [] None"

definition helpNamedCmd :: Command where
  "helpNamedCmd = Command ''help'' ''help on a topic'' [] True [] True 4 [] [] None"

definition strayCmd :: Command where
  "strayCmd = Command ''stray'' ''a command of no group'' ''nosuch'' False [] True 5 [] [] None"

definition toolCmd :: Command where
  "toolCmd = Command ''tool'' ''a command with subcommands'' ''misc'' False [] False 6 [] [] None"

definition basicGroup :: Group where
  "basicGroup = \<lparr>ID = ''basic'', Title = ''Commands for Basic Operation:''\<rparr>"

section \<open>Properties of the default worker-thread count\<close>

lemma Atoi_empty: "Atoi [] = Inl ErrSyntax"
  by (simp add: Atoi_def ParseInt_def)

lemma Atoi_zero: "Atoi ''0'' = Inr 0"
  by (simp add: Atoi_def ParseInt_def isDigit_def digitVal_def IntSize_def)

lemma Atoi_abc: "Atoi ''abc'' = Inl ErrSyntax"
  by (simp add: Atoi_def ParseInt_def isDigit_def)

lemma Atoi_six: "Atoi ''6'' = Inr 6"
  by (simp add: Atoi_def ParseInt_def isDigit_def digitVal_def IntSize_def)

lemma Atoi_minus_three: "Atoi ''-3'' = Inr (- 3)"
  by (simp add: Atoi_def ParseInt_def isDigit_def digitVal_def IntSize_def)

lemma Atoi_plus_twelve: "Atoi ''+12'' = Inr 12"
  by (simp add: Atoi_def ParseInt_def isDigit_def digitVal_def IntSize_def)

lemma Atoi_twelve_a: "Atoi ''12a'' = Inl ErrSyntax"
  by (simp add: Atoi_def ParseInt_def isDigit_def digitVal_def)

text \<open>The largest \<^verbatim>\<open>int\<close> parses, the next integer is a range error.\<close>

lemma Atoi_max_int: "Atoi ''9223372036854775807'' = Inr 9223372036854775807"
  by (simp add: Atoi_def ParseInt_def isDigit_def digitVal_def IntSize_def)

lemma Atoi_above_max_int: "Atoi ''9223372036854775808'' = Inl ErrRange"
  by (simp add: Atoi_def ParseInt_def isDigit_def digitVal_def IntSize_def)

lemma Atoi_Inr_nonempty: "Atoi s = Inr n \<Longrightarrow> s \<noteq> []"
  by (auto simp: Atoi_empty)

text \<open>A parsed value fits Go's \<^verbatim>\<open>int\<close>.\<close>

lemma Atoi_Inr_range:
  assumes "Atoi s = Inr n"
  shows "- (2 ^ (IntSize - 1)) \<le> n \<and> n < 2 ^ (IntSize - 1)"
proof -
  define cutoff where "cutoff = (2::nat) ^ (IntSize - 1)"
  have cutoff: "(2::int) ^ (IntSize - 1) = int cutoff"
    by (simp add: cutoff_def)
  from assms obtain un where
    "(n = int un \<and> un < cutoff) \<or> (n = - int un \<and> un \<le> cutoff)"
    by (auto simp: Atoi_def ParseInt_def Let_def cutoff_def not_le not_less
        split: if_splits option.splits)
  moreover have "0 < cutoff"
    by (simp add: cutoff_def)
  ultimately show ?thesis
    unfolding cutoff by auto
qed

text \<open>\<^verbatim>\<open>Atoi\<close> reads the decimal numeral of every integer that fits Go's \<^verbatim>\<open>int\<close>.\<close>

declare decimalNat.simps [simp del]

lemma digit_char:
  assumes "d < 10"
  shows "isDigit (char_of (48 + d))" and "digitVal (char_of (48 + d)) = d"
proof -
  from assms have "(48 + d) mod 256 = 48 + d" by simp
  then have "(of_char (char_of (48 + d) :: char) :: nat) = 48 + d"
    by (simp add: of_char_of)
  then show "isDigit (char_of (48 + d))" and "digitVal (char_of (48 + d)) = d"
    using assms by (simp_all add: isDigit_def digitVal_def)
qed

lemma parseDigits_snoc:
  "parseDigits n (s @ [ch]) =
     (case parseDigits n s of
        None \<Rightarrow> None
      | Some m \<Rightarrow> if isDigit ch then Some (m * 10 + digitVal ch) else None)"
  by (induction s arbitrary: n) simp_all

lemma parseDigits_decimalNat: "parseDigits 0 (decimalNat n) = Some n"
proof (induction n rule: decimalNat.induct)
  case (1 n)
  show ?case
  proof (cases "n < 10")
    case True
    then show ?thesis
      by (simp add: decimalNat.simps [of n] digit_char)
  next
    case False
    have "n mod 10 < 10" by simp
    with False "1.IH" show ?thesis
      by (simp add: decimalNat.simps [of n] parseDigits_snoc digit_char)
  qed
qed

lemma decimalNat_nonempty: "decimalNat n \<noteq> []"
  by (simp add: decimalNat.simps [of n])

lemma hd_decimalNat: "isDigit (hd (decimalNat n))"
proof (induction n rule: decimalNat.induct)
  case (1 n)
  show ?case
  proof (cases "n < 10")
    case True
    then show ?thesis by (simp add: decimalNat.simps [of n] digit_char)
  next
    case False
    with "1.IH" show ?thesis
      by (simp add: decimalNat.simps [of n] decimalNat_nonempty)
  qed
qed

lemma hd_decimalNat_no_sign:
  "hd (decimalNat n) \<noteq> CHR ''+''" "hd (decimalNat n) \<noteq> CHR ''-''"
  using hd_decimalNat [of n] by (auto simp: isDigit_def)

lemma Atoi_decimal:
  assumes "- (2 ^ (IntSize - 1)) \<le> n" and "n < 2 ^ (IntSize - 1)"
  shows "Atoi (decimal n) = Inr n"
proof (cases "n < 0")
  case True
  with assms(1) have "nat (- n) \<le> 2 ^ (IntSize - 1)"
    by (simp add: nat_le_iff)
  with True show ?thesis
    by (simp add: Atoi_def ParseInt_def decimal_def decimalNat_nonempty parseDigits_decimalNat)
next
  case False
  with assms(2) have "nat n < 2 ^ (IntSize - 1)"
    by (simp add: nat_less_iff)
  with False show ?thesis
    by (simp add: Atoi_def ParseInt_def decimal_def decimalNat_nonempty parseDigits_decimalNat
        hd_decimalNat_no_sign)
qed

lemma decimal_nonempty: "decimal n \<noteq> []"
  by (simp add: decimal_def decimalNat_nonempty)

text \<open>
  An override that \<^verbatim>\<open>Atoi\<close> rejects for its range is ignored like any other
  rejected override.
\<close>

lemma resolveDefaultThreads_above_max_int:
  "resolveDefaultThreads 8 ''9223372036854775808'' = 4"
  by (simp add: resolveDefaultThreads_def capThreads_def envOverride_def Atoi_above_max_int)

text \<open>
  C1. On a host of at least one CPU, when \<^verbatim>\<open>SEQKIT_THREADS\<close> is not empty and parses
  (\<^verbatim>\<open>strconv.Atoi\<close> returns it without error) as an integer below 1, the resolved
  default is the CPU count of the host as it is, not capped at 4; a host of 8 CPUs
  with the override \<^verbatim>\<open>0\<close> gets 8.
\<close>

theorem resolveDefaultThreads_env_below_one:
  "(1 \<le> hostCPUCount \<and> envValue \<noteq> [] \<and> Atoi envValue = Inr n \<and> n < 1
      \<longrightarrow> resolveDefaultThreads hostCPUCount envValue = hostCPUCount)
   \<and> resolveDefaultThreads 8 ''0'' = 8"
  by (simp add: resolveDefaultThreads_def capThreads_def envOverride_def Atoi_zero)

theorem resolveDefaultThreads_env_below_one_witness:
  "(1::int) \<le> 8 \<and> ''-3'' \<noteq> [] \<and> Atoi ''-3'' = Inr (- 3) \<and> (- 3 :: int) < 1
   \<and> resolveDefaultThreads 8 ''-3'' = 8"
  using resolveDefaultThreads_env_below_one [of 8 "''-3''" "- 3"]
  by (simp add: Atoi_minus_three)

text \<open>
  C2. With an empty \<^verbatim>\<open>SEQKIT_THREADS\<close> and a host of at least one CPU, the resolved
  default is the smaller of the CPU count and 4; a host of 8 CPUs gets 4 and a host
  of 2 CPUs gets 2.
\<close>

theorem resolveDefaultThreads_empty_env:
  "(1 \<le> hostCPUCount \<longrightarrow> resolveDefaultThreads hostCPUCount [] = min hostCPUCount 4)
   \<and> resolveDefaultThreads 8 [] = 4 \<and> resolveDefaultThreads 2 [] = 2"
  by (simp add: resolveDefaultThreads_def capThreads_def envOverride_def)

theorem resolveDefaultThreads_empty_env_witness:
  "(1::int) \<le> 3 \<and> resolveDefaultThreads 3 [] = min 3 4 \<and> resolveDefaultThreads 3 [] = 3"
  using resolveDefaultThreads_empty_env [of 3] by simp

text \<open>
  C3. On a host of at least one CPU, a non-empty \<^verbatim>\<open>SEQKIT_THREADS\<close> that does not
  parse (\<^verbatim>\<open>strconv.Atoi\<close> returns an error) resolves to the same default as an empty
  one: the override is ignored and nothing fails; a host of 8 CPUs with the override
  \<^verbatim>\<open>abc\<close> gets 4.
\<close>

theorem resolveDefaultThreads_malformed_env:
  "(1 \<le> hostCPUCount \<and> envValue \<noteq> [] \<and> (\<forall>n. Atoi envValue \<noteq> Inr n)
      \<longrightarrow> resolveDefaultThreads hostCPUCount envValue = resolveDefaultThreads hostCPUCount [])
   \<and> resolveDefaultThreads 8 ''abc'' = 4"
proof -
  have "resolveDefaultThreads hostCPUCount envValue = resolveDefaultThreads hostCPUCount []"
    if "\<forall>n. Atoi envValue \<noteq> Inr n"
  proof (cases "Atoi envValue")
    case (Inl err)
    then show ?thesis
      by (simp add: resolveDefaultThreads_def envOverride_def Let_def)
  next
    case (Inr t)
    with that show ?thesis by simp
  qed
  moreover have "resolveDefaultThreads 8 ''abc'' = 4"
    by (simp add: resolveDefaultThreads_def capThreads_def envOverride_def Atoi_abc)
  ultimately show ?thesis by simp
qed

theorem resolveDefaultThreads_malformed_env_witness:
  "(1::int) \<le> 2 \<and> ''12a'' \<noteq> [] \<and> Atoi ''12a'' = Inl ErrSyntax
   \<and> resolveDefaultThreads 2 ''12a'' = resolveDefaultThreads 2 []
   \<and> resolveDefaultThreads 2 ''12a'' = 2"
  using resolveDefaultThreads_malformed_env [of 2 "''12a''"]
  by (simp add: Atoi_twelve_a resolveDefaultThreads_def capThreads_def envOverride_def)

text \<open>
  C9. On a host of at least one CPU the resolved default is at least 1, whatever
  \<^verbatim>\<open>SEQKIT_THREADS\<close> holds: the default bound to the \<^verbatim>\<open>threads\<close> flag is never zero
  or negative.
\<close>

theorem resolveDefaultThreads_positive:
  "1 \<le> hostCPUCount \<Longrightarrow> 1 \<le> resolveDefaultThreads hostCPUCount envValue"
proof -
  assume host: "1 \<le> hostCPUCount"
  define d where "d = envOverride envValue (capThreads hostCPUCount)"
  have "resolveDefaultThreads hostCPUCount envValue = (if d < 1 then hostCPUCount else d)"
    by (simp add: resolveDefaultThreads_def d_def)
  with host show ?thesis by simp
qed

theorem resolveDefaultThreads_positive_witness:
  "(1::int) \<le> 1 \<and> 1 \<le> resolveDefaultThreads 1 ''-3'' \<and> resolveDefaultThreads 1 ''-3'' = 1"
  using resolveDefaultThreads_positive [of 1 "''-3''"]
  by (simp add: resolveDefaultThreads_def capThreads_def envOverride_def Atoi_minus_three)

text \<open>
  Every integer from 1 to the largest \<^verbatim>\<open>int\<close> is the resolved default for some
  override, on any host.
\<close>

lemma resolveDefaultThreads_decimal:
  "1 \<le> hostCPUCount \<Longrightarrow> 1 \<le> n \<Longrightarrow> n < 2 ^ (IntSize - 1) \<Longrightarrow>
   resolveDefaultThreads hostCPUCount (decimal n) = n"
  by (simp add: resolveDefaultThreads_def envOverride_def Atoi_decimal decimal_nonempty)

lemma resolveDefaultThreads_max_int:
  "resolveDefaultThreads 1 ''9223372036854775807'' = 9223372036854775807"
  by (simp add: resolveDefaultThreads_def capThreads_def envOverride_def Atoi_max_int)

text \<open>
  C10. On a host of at least one CPU, when \<^verbatim>\<open>SEQKIT_THREADS\<close> parses
  (\<^verbatim>\<open>strconv.Atoi\<close> returns it without error, so it fits Go's \<^verbatim>\<open>int\<close>) as an integer
  \<open>n\<close> of at least 1, the resolved default is \<open>n\<close>, also when \<open>n\<close> is above the CPU
  count or above the cap of 4: no upper bound is applied to the override. A host of
  2 CPUs with the override \<^verbatim>\<open>6\<close> gets 6, and so does a host of 8 CPUs.
\<close>

theorem resolveDefaultThreads_env_override:
  "(1 \<le> hostCPUCount \<and> Atoi envValue = Inr n \<and> 1 \<le> n
      \<longrightarrow> resolveDefaultThreads hostCPUCount envValue = n)
   \<and> resolveDefaultThreads 2 ''6'' = 6
   \<and> resolveDefaultThreads 8 ''6'' = 6"
proof -
  have "resolveDefaultThreads hostCPUCount envValue = n" if "Atoi envValue = Inr n" "1 \<le> n"
  proof -
    from that(1) have "envValue \<noteq> []" by (rule Atoi_Inr_nonempty)
    with that show ?thesis
      by (simp add: resolveDefaultThreads_def envOverride_def)
  qed
  moreover have "resolveDefaultThreads 2 ''6'' = 6"
    by (simp add: resolveDefaultThreads_def capThreads_def envOverride_def Atoi_six)
  moreover have "resolveDefaultThreads 8 ''6'' = 6"
    by (simp add: resolveDefaultThreads_def capThreads_def envOverride_def Atoi_six)
  ultimately show ?thesis by simp
qed

theorem resolveDefaultThreads_env_override_witness:
  "(1::int) \<le> 8 \<and> Atoi ''+12'' = Inr 12 \<and> (1::int) \<le> 12
   \<and> resolveDefaultThreads 8 ''+12'' = 12"
  using resolveDefaultThreads_env_override [of 8 "''+12''" 12]
  by (simp add: Atoi_plus_twelve)

section \<open>Properties of the entry point\<close>

text \<open>
  C4. When \<^verbatim>\<open>RootCmd.Execute()\<close> returns an error (from parsing the arguments or from
  the callback of the matched command), \<^verbatim>\<open>Execute\<close> appends the message of the error
  and a newline to standard output, leaves standard error as it was, and ends the
  process with the value -1, which the parent observes as 255. When it returns no
  error, \<^verbatim>\<open>Execute\<close> prints nothing and returns, and the status is 0.
\<close>

theorem Execute_error_exit:
  "(rootCmdExecute w = (Some err, w') \<longrightarrow>
      Execute rootCmdExecute w = (Exited (- 1), w'\<lparr>stdout := stdout w' @ err @ [newline]\<rparr>)
      \<and> stderr (snd (Execute rootCmdExecute w)) = stderr w'
      \<and> exitStatus (fst (Execute rootCmdExecute w)) = 255)
   \<and> (rootCmdExecute w = (None, w') \<longrightarrow>
      Execute rootCmdExecute w = (Returned, w')
      \<and> exitStatus (fst (Execute rootCmdExecute w)) = 0)"
  by (simp add: Execute_def Println_def)

theorem Execute_error_exit_witness:
  "Execute unknownFlagRun emptyWorld
     = (Exited (- 1),
        \<lparr>stdout = ''unknown flag: --foo'' @ [newline], stderr = ''Error: unknown flag: --foo''\<rparr>)
   \<and> exitStatus (fst (Execute unknownFlagRun emptyWorld)) = 255
   \<and> Execute versionRun emptyWorld = (Returned, \<lparr>stdout = ''seqkit v2'', stderr = []\<rparr>)
   \<and> exitStatus (fst (Execute versionRun emptyWorld)) = 0"
  using Execute_error_exit [of unknownFlagRun emptyWorld "''unknown flag: --foo''"
      "\<lparr>stdout = [], stderr = ''Error: unknown flag: --foo''\<rparr>"]
    Execute_error_exit [of versionRun emptyWorld "''x''" "\<lparr>stdout = ''seqkit v2'', stderr = []\<rparr>"]
  by (simp add: unknownFlagRun_def versionRun_def emptyWorld_def)

section \<open>Properties of the subcommand block\<close>

lemma AddCommand_sel [simp]:
  "commands (AddCommand c cmds) = commands c @ cmds"
  "commandgroups (AddCommand c cmds) = commandgroups c"
  "helpCommand (AddCommand c cmds) = helpCommand c"
  by (simp_all add: AddCommand_def)

lemma AddGroup_sel [simp]:
  "commands (AddGroup c groups) = commands c"
  "commandgroups (AddGroup c groups) = commandgroups c @ groups"
  "helpCommand (AddGroup c groups) = helpCommand c"
  by (simp_all add: AddGroup_def)

lemma RootCmd_sel [simp]:
  "commands RootCmd = []"
  "commandgroups RootCmd = seqkitGroups"
  "helpCommand RootCmd = Some 1"
  by (simp_all add: RootCmd_def SetHelpCommand_def AddGroup_def RootCmdLiteral_def
      hiddenHelpCmd_def)

lemma toolCmd_sel [simp]:
  "commands toolCmd = []"
  "commandgroups toolCmd = []"
  "helpCommand toolCmd = None"
  by (simp_all add: toolCmd_def)

lemmas block_defs =
  subcommandSections_def HasAvailableSubCommands_def AllChildCommandsHaveGroup_def
  availableSection_def groupSection_def additionalSection_def listed_def Name_def
  renderedCommands_def sectionNames_def

text \<open>The loop of \<^verbatim>\<open>AllChildCommandsHaveGroup()\<close> as a search.\<close>

lemma childrenHaveGroup_iff:
  "childrenHaveGroup help subs =
     (\<not> list_ex (\<lambda>sub. GroupID sub = [] \<and>
          (IsAvailableCommand help sub \<or> help = Some (addr sub))) subs)"
  by (induction subs) auto

lemma AllChildCommandsHaveGroup_iff:
  "AllChildCommandsHaveGroup c =
     (\<not> list_ex (\<lambda>sub. GroupID sub = [] \<and>
          (IsAvailableCommand (helpCommand c) sub \<or> helpCommand c = Some (addr sub)))
        (commands c))"
  by (simp add: AllChildCommandsHaveGroup_def childrenHaveGroup_iff)

lemma available_without_group:
  "sub \<in> set (commands c) \<Longrightarrow> IsAvailableCommand (helpCommand c) sub \<Longrightarrow> GroupID sub = [] \<Longrightarrow>
   \<not> AllChildCommandsHaveGroup c"
  by (auto simp: AllChildCommandsHaveGroup_iff list_ex_iff)

text \<open>The children listed by the block, in each of its three shapes.\<close>

lemma renderedCommands_none:
  "\<not> HasAvailableSubCommands c \<Longrightarrow> renderedCommands c = []"
  by (simp add: renderedCommands_def subcommandSections_def)

lemma renderedCommands_flat:
  "HasAvailableSubCommands c \<Longrightarrow> commandgroups c = [] \<Longrightarrow>
   renderedCommands c = filter (listed c) (commands c)"
  by (simp add: renderedCommands_def subcommandSections_def availableSection_def)

lemma renderedCommands_grouped:
  "HasAvailableSubCommands c \<Longrightarrow> commandgroups c \<noteq> [] \<Longrightarrow>
   renderedCommands c =
     concat (map (\<lambda>grp. filter (\<lambda>sub. GroupID sub = ID grp \<and> listed c sub) (commands c))
       (commandgroups c))
     @ (if AllChildCommandsHaveGroup c then []
        else filter (\<lambda>sub. GroupID sub = [] \<and> listed c sub) (commands c))"
  by (simp add: renderedCommands_def subcommandSections_def groupSection_def
      additionalSection_def comp_def)

lemma renderedCommands_iff:
  "sub \<in> set (renderedCommands c) \<longleftrightarrow>
     HasAvailableSubCommands c \<and> sub \<in> set (commands c) \<and> listed c sub \<and>
     (commandgroups c = [] \<or> GroupID sub \<in> ID ` set (commandgroups c)
      \<or> (GroupID sub = [] \<and> \<not> AllChildCommandsHaveGroup c))"
proof (cases "HasAvailableSubCommands c")
  case False
  then show ?thesis by (simp add: renderedCommands_none)
next
  case avail: True
  show ?thesis
  proof (cases "commandgroups c = []")
    case True
    with avail show ?thesis by (simp add: renderedCommands_flat)
  next
    case False
    with avail show ?thesis by (auto simp: renderedCommands_grouped)
  qed
qed

lemma groupsRegistered_D:
  "groupsRegistered c \<Longrightarrow> sub \<in> set (commands c) \<Longrightarrow>
   GroupID sub = [] \<or> GroupID sub \<in> ID ` set (commandgroups c)"
proof -
  assume "groupsRegistered c" and "sub \<in> set (commands c)"
  then have "GroupID sub = [] \<or> (\<exists>grp\<in>set (commandgroups c). ID grp = GroupID sub)"
    by (simp add: groupsRegistered_def list_all_iff list_ex_iff)
  then show ?thesis
  proof
    assume "GroupID sub = []"
    then show ?thesis by simp
  next
    assume "\<exists>grp\<in>set (commandgroups c). ID grp = GroupID sub"
    then obtain grp where "grp \<in> set (commandgroups c)" and "ID grp = GroupID sub" by blast
    then have "GroupID sub \<in> ID ` set (commandgroups c)" by (metis imageI)
    then show ?thesis by simp
  qed
qed

text \<open>The text of the block for the root with two of the sample commands.\<close>

lemma usageSubcommands_sample:
  "usageSubcommands (AddCommand RootCmd [seqCmd, versionCmd]) =
     [newline, newline] @ ''Commands for Basic Operation:''
     @ [newline] @ ''  seq         transform sequences''
     @ [newline, newline] @ ''Commands for Format Conversion:''
     @ [newline, newline] @ ''Commands for Searching:''
     @ [newline, newline] @ ''Commands for Set Operation:''
     @ [newline, newline] @ ''Commands for Edit:''
     @ [newline, newline] @ ''Commands for Ordering:''
     @ [newline, newline] @ ''Commands for BAM Processing:''
     @ [newline, newline] @ ''Commands for Miscellaneous:''
     @ [newline, newline] @ ''Additional Commands:''
     @ [newline] @ ''  version     print version information''"
  by (simp add: usageSubcommands_def renderSection_def commandLine_def rpad_def NamePadding_def
      minNamePadding_def commandsMaxNameLen_def block_defs seqCmd_def versionCmd_def
      seqkitGroups_def numeral_eq_Suc)

text \<open>
  C5, as the specification states it, fails. The root with the command \<^verbatim>\<open>version\<close> as
  its only child has no child in any of its eight groups, and the block still emits
  the eight group headings and "Additional Commands", not one flat "Available
  Commands" listing: the template tests whether the node has groups, not whether a
  group has members.
\<close>

theorem flat_listing_counterexample:
  "noGroupHasMember (AddCommand RootCmd [versionCmd])
   \<and> HasAvailableSubCommands (AddCommand RootCmd [versionCmd])
   \<and> map fst (subcommandSections (AddCommand RootCmd [versionCmd])) \<noteq> [''Available Commands:'']
   \<and> sectionNames (AddCommand RootCmd [versionCmd]) =
       [(''Commands for Basic Operation:'', []), (''Commands for Format Conversion:'', []),
        (''Commands for Searching:'', []), (''Commands for Set Operation:'', []),
        (''Commands for Edit:'', []), (''Commands for Ordering:'', []),
        (''Commands for BAM Processing:'', []), (''Commands for Miscellaneous:'', []),
        (''Additional Commands:'', [''version''])]"
  by (simp add: noGroupHasMember_def block_defs versionCmd_def seqkitGroups_def)

text \<open>
  C5, amended. For a node with an available subcommand: if the node has no registered
  group, the block is the single heading "Available Commands:" over the children that
  are available or named \<^verbatim>\<open>help\<close>; otherwise (also when no group has a member) it is
  one subsection per registered group, in the order of registration, titled with the
  title of the group and listing exactly its children that are available or named
  \<^verbatim>\<open>help\<close>, followed by the subsection "Additional Commands:" of such children
  without group, which is emitted exactly when a child without group is available or
  is the help command of the node. A node with no available subcommand has no block.
\<close>

theorem subcommandSections_layout:
  "(HasAvailableSubCommands c \<and> commandgroups c = [] \<longrightarrow>
      subcommandSections c = [(''Available Commands:'', filter (listed c) (commands c))])
   \<and> (HasAvailableSubCommands c \<and> commandgroups c \<noteq> [] \<longrightarrow>
      subcommandSections c =
        map (\<lambda>grp. (Title grp, filter (\<lambda>sub. GroupID sub = ID grp \<and> listed c sub) (commands c)))
          (commandgroups c)
        @ (if list_ex (\<lambda>sub. GroupID sub = [] \<and>
                (IsAvailableCommand (helpCommand c) sub \<or> helpCommand c = Some (addr sub)))
              (commands c)
           then [(''Additional Commands:'',
                  filter (\<lambda>sub. GroupID sub = [] \<and> listed c sub) (commands c))]
           else []))
   \<and> (\<not> HasAvailableSubCommands c \<longrightarrow> subcommandSections c = [])"
  by (simp add: subcommandSections_def availableSection_def groupSection_def
      additionalSection_def AllChildCommandsHaveGroup_iff)

theorem subcommandSections_layout_witness:
  "HasAvailableSubCommands (AddCommand toolCmd [statsCmd, versionCmd])
   \<and> commandgroups (AddCommand toolCmd [statsCmd, versionCmd]) = []
   \<and> sectionNames (AddCommand toolCmd [statsCmd, versionCmd]) =
       [(''Available Commands:'', [''stats'', ''version''])]
   \<and> HasAvailableSubCommands (AddCommand (AddGroup toolCmd [basicGroup]) [seqCmd, versionCmd])
   \<and> commandgroups (AddCommand (AddGroup toolCmd [basicGroup]) [seqCmd, versionCmd]) \<noteq> []
   \<and> sectionNames (AddCommand (AddGroup toolCmd [basicGroup]) [seqCmd, versionCmd]) =
       [(''Commands for Basic Operation:'', [''seq'']), (''Additional Commands:'', [''version''])]
   \<and> \<not> HasAvailableSubCommands (AddCommand toolCmd [helpNamedCmd])
   \<and> subcommandSections (AddCommand toolCmd [helpNamedCmd]) = []"
  using subcommandSections_layout [of "AddCommand toolCmd [statsCmd, versionCmd]"]
    subcommandSections_layout [of "AddCommand (AddGroup toolCmd [basicGroup]) [seqCmd, versionCmd]"]
    subcommandSections_layout [of "AddCommand toolCmd [helpNamedCmd]"]
  by (simp add: block_defs seqCmd_def statsCmd_def versionCmd_def helpNamedCmd_def basicGroup_def)

text \<open>
  C6, as the specification states it, fails. Under a parent with one registered
  group, a hidden child named \<^verbatim>\<open>help\<close> without group is among the children, a listing
  is rendered, and the child is not in it: no heading selects it, since every
  available child has a group and "Additional Commands" is not emitted.
\<close>

theorem help_named_counterexample:
  "helpNamedCmd \<in> set (commands (AddCommand (AddGroup toolCmd [basicGroup]) [helpNamedCmd, seqCmd]))
   \<and> Name helpNamedCmd = ''help'' \<and> Hidden helpNamedCmd
   \<and> sectionNames (AddCommand (AddGroup toolCmd [basicGroup]) [helpNamedCmd, seqCmd])
       = [(''Commands for Basic Operation:'', [''seq''])]
   \<and> helpNamedCmd \<notin> set (renderedCommands (AddCommand (AddGroup toolCmd [basicGroup])
        [helpNamedCmd, seqCmd]))"
  by (simp add: block_defs helpNamedCmd_def seqCmd_def basicGroup_def)

text \<open>
  C6, amended. Every child in a rendered listing is a child of the node that is
  available or named \<^verbatim>\<open>help\<close>, so a hidden or otherwise unavailable child that is
  not named \<^verbatim>\<open>help\<close> is excluded. A child named \<^verbatim>\<open>help\<close> passes this test whatever
  its state, and under a node with an available subcommand it is listed exactly when
  a heading selects its group: in the flat listing always; in a grouped listing when
  its group is a registered group, or when it has no group and "Additional Commands"
  is emitted.
\<close>

theorem listing_filter:
  "(sub \<in> set (renderedCommands c) \<longrightarrow>
      sub \<in> set (commands c) \<and> (IsAvailableCommand (helpCommand c) sub \<or> Name sub = ''help''))
   \<and> (HasAvailableSubCommands c \<and> sub \<in> set (commands c) \<and> Name sub = ''help'' \<longrightarrow>
        (sub \<in> set (renderedCommands c) \<longleftrightarrow>
           commandgroups c = [] \<or> GroupID sub \<in> ID ` set (commandgroups c)
           \<or> (GroupID sub = [] \<and> \<not> AllChildCommandsHaveGroup c)))"
  by (auto simp: renderedCommands_iff listed_def)

theorem listing_filter_witness:
  "versionCmd \<in> set (renderedCommands (AddCommand toolCmd [helpNamedCmd, versionCmd]))
   \<and> IsAvailableCommand None versionCmd
   \<and> HasAvailableSubCommands (AddCommand toolCmd [helpNamedCmd, versionCmd])
   \<and> helpNamedCmd \<in> set (commands (AddCommand toolCmd [helpNamedCmd, versionCmd]))
   \<and> Name helpNamedCmd = ''help''
   \<and> commandgroups (AddCommand toolCmd [helpNamedCmd, versionCmd]) = []
   \<and> helpNamedCmd \<in> set (renderedCommands (AddCommand toolCmd [helpNamedCmd, versionCmd]))"
  using listing_filter [of versionCmd "AddCommand toolCmd [helpNamedCmd, versionCmd]"]
    listing_filter [of helpNamedCmd "AddCommand toolCmd [helpNamedCmd, versionCmd]"]
  by (simp add: block_defs versionCmd_def helpNamedCmd_def)

text \<open>
  C7. \<^verbatim>\<open>init\<close> registers on the root exactly eight groups, in this order: basic
  operation, format conversion, searching, set operation, edit, ordering, BAM
  processing (the specialized record processing of the specification) and
  miscellaneous. Whatever children are attached, when the root has an available
  subcommand the headings of its rendered help are the eight titles in the order of
  registration, followed by "Additional Commands:" if that subsection is emitted.
\<close>

theorem RootCmd_groups_order:
  "commandgroups RootCmd = seqkitGroups \<and> length (commandgroups RootCmd) = 8
   \<and> map ID (commandgroups RootCmd) =
       [''basic'', ''format'', ''search'', ''set'', ''edit'', ''order'', ''bam'', ''misc'']
   \<and> map Title (commandgroups RootCmd) =
       [''Commands for Basic Operation:'', ''Commands for Format Conversion:'',
        ''Commands for Searching:'', ''Commands for Set Operation:'', ''Commands for Edit:'',
        ''Commands for Ordering:'', ''Commands for BAM Processing:'',
        ''Commands for Miscellaneous:'']
   \<and> (HasAvailableSubCommands (AddCommand RootCmd cmds) \<longrightarrow>
        map fst (subcommandSections (AddCommand RootCmd cmds)) =
          map Title (commandgroups RootCmd)
          @ (if AllChildCommandsHaveGroup (AddCommand RootCmd cmds) then []
             else [''Additional Commands:'']))"
proof -
  have "seqkitGroups \<noteq> []" by (simp add: seqkitGroups_def)
  then have "HasAvailableSubCommands (AddCommand RootCmd cmds) \<longrightarrow>
        map fst (subcommandSections (AddCommand RootCmd cmds)) =
          map Title (commandgroups RootCmd)
          @ (if AllChildCommandsHaveGroup (AddCommand RootCmd cmds) then []
             else [''Additional Commands:''])"
    by (simp add: subcommandSections_def groupSection_def additionalSection_def comp_def)
  then show ?thesis by (simp add: seqkitGroups_def)
qed

theorem RootCmd_groups_order_witness:
  "HasAvailableSubCommands (AddCommand RootCmd [hiddenHelpCmd, seqCmd, versionCmd])
   \<and> map fst (subcommandSections (AddCommand RootCmd [hiddenHelpCmd, seqCmd, versionCmd])) =
       [''Commands for Basic Operation:'', ''Commands for Format Conversion:'',
        ''Commands for Searching:'', ''Commands for Set Operation:'', ''Commands for Edit:'',
        ''Commands for Ordering:'', ''Commands for BAM Processing:'',
        ''Commands for Miscellaneous:'', ''Additional Commands:'']"
  using RootCmd_groups_order [of "[hiddenHelpCmd, seqCmd, versionCmd]"]
  by (simp add: block_defs hiddenHelpCmd_def seqCmd_def versionCmd_def seqkitGroups_def)

text \<open>The group check, node by node.\<close>

lemma checkCommandGroups_iff:
  "checkCommandGroups c \<longleftrightarrow>
     (\<forall>sub\<in>set (commands c).
        (GroupID sub = [] \<or> ContainsGroup c (GroupID sub)) \<and> checkCommandGroups sub)"
  by (cases c) (auto simp: ContainsGroup_def list_all_iff)

lemma nodes_iff:
  "x \<in> set (nodes c) \<longleftrightarrow> x = c \<or> (\<exists>sub\<in>set (commands c). x \<in> set (nodes sub))"
  by (cases c) auto

lemma checked_node:
  "checkCommandGroups root \<Longrightarrow> c \<in> set (nodes root) \<Longrightarrow> checkCommandGroups c"
proof (induction root)
  case (Command u sh gid hid depr rn a subs grps hc)
  let ?root = "Command u sh gid hid depr rn a subs grps hc"
  from Command.prems(2) consider "c = ?root" | sub where "sub \<in> set subs" "c \<in> set (nodes sub)"
    by auto
  then show ?case
  proof cases
    case 1
    with Command.prems(1) show ?thesis by simp
  next
    case 2
    from Command.prems(1) 2(1) have "checkCommandGroups sub"
      by (simp add: list_all_iff)
    with 2 Command.IH show ?thesis by blast
  qed
qed

lemma checked_child:
  "checkCommandGroups root \<Longrightarrow> c \<in> set (nodes root) \<Longrightarrow> sub \<in> set (commands c) \<Longrightarrow>
   GroupID sub = [] \<or> ContainsGroup c (GroupID sub)"
  using checked_node [of root c] checkCommandGroups_iff [of c] by blast

lemma checked_groupsRegistered:
  "checkCommandGroups root \<Longrightarrow> c \<in> set (nodes root) \<Longrightarrow> groupsRegistered c"
  using checked_child [of root c]
  by (auto simp: groupsRegistered_def ContainsGroup_def list_all_iff)

text \<open>
  C8, as the specification states it, fails. The root with the help command of line
  139, a command in the group \<^verbatim>\<open>basic\<close> and a command whose group \<^verbatim>\<open>nosuch\<close> is
  registered nowhere is a tree that the subcommand files can build. Its last child
  is not rendered under "Additional Commands": the run panics at the group check
  and renders no help text at all.
\<close>

theorem additional_fallback_counterexample:
  "strayCmd \<in> set (commands (AddCommand RootCmd [hiddenHelpCmd, seqCmd, strayCmd]))
   \<and> GroupID strayCmd = ''nosuch''
   \<and> \<not> ContainsGroup (AddCommand RootCmd [hiddenHelpCmd, seqCmd, strayCmd]) ''nosuch''
   \<and> \<not> checkCommandGroups (AddCommand RootCmd [hiddenHelpCmd, seqCmd, strayCmd])
   \<and> helpInRun (AddCommand RootCmd [hiddenHelpCmd, seqCmd, strayCmd])
        (AddCommand RootCmd [hiddenHelpCmd, seqCmd, strayCmd]) = None"
  by (simp add: helpInRun_def ContainsGroup_def AddCommand_def RootCmd_def SetHelpCommand_def
      AddGroup_def RootCmdLiteral_def strayCmd_def seqCmd_def hiddenHelpCmd_def seqkitGroups_def)

text \<open>
  C8, amended. In every tree that passes the group check at the start of a run, each
  non-empty group of a child matches a group registered on its parent. There is no
  fallback for a group that matches none: a tree with such a child does not pass the
  check, the run panics and no help text is rendered. "Additional Commands" lists
  only children whose group is empty, and in a tree that passes the check every
  available child of a node with an available subcommand is rendered under some
  heading.
\<close>

theorem checked_tree_groups_registered:
  "(checkCommandGroups root \<and> c \<in> set (nodes root) \<and> sub \<in> set (commands c) \<and> GroupID sub \<noteq> []
      \<longrightarrow> ContainsGroup c (GroupID sub))
   \<and> (c \<in> set (nodes root) \<and> sub \<in> set (commands c) \<and> GroupID sub \<noteq> []
        \<and> \<not> ContainsGroup c (GroupID sub)
      \<longrightarrow> \<not> checkCommandGroups root \<and> helpInRun root c = None)
   \<and> (sub \<in> set (snd (additionalSection c)) \<longrightarrow> GroupID sub = [])
   \<and> (checkCommandGroups root \<and> c \<in> set (nodes root) \<and> HasAvailableSubCommands c
        \<and> sub \<in> set (commands c) \<and> IsAvailableCommand (helpCommand c) sub
      \<longrightarrow> sub \<in> set (renderedCommands c))"
proof (intro conjI impI)
  assume "checkCommandGroups root \<and> c \<in> set (nodes root) \<and> sub \<in> set (commands c)
    \<and> GroupID sub \<noteq> []"
  then show "ContainsGroup c (GroupID sub)"
    using checked_child [of root c sub] by blast
next
  assume a: "c \<in> set (nodes root) \<and> sub \<in> set (commands c) \<and> GroupID sub \<noteq> []
    \<and> \<not> ContainsGroup c (GroupID sub)"
  then show "\<not> checkCommandGroups root"
    using checked_child [of root c sub] by blast
  then show "helpInRun root c = None"
    by (simp add: helpInRun_def)
next
  assume "sub \<in> set (snd (additionalSection c))"
  then show "GroupID sub = []" by (simp add: additionalSection_def)
next
  assume a: "checkCommandGroups root \<and> c \<in> set (nodes root) \<and> HasAvailableSubCommands c
        \<and> sub \<in> set (commands c) \<and> IsAvailableCommand (helpCommand c) sub"
  then have "groupsRegistered c"
    using checked_groupsRegistered [of root c] by blast
  with a have "GroupID sub = [] \<or> GroupID sub \<in> ID ` set (commandgroups c)"
    by (simp add: groupsRegistered_D)
  moreover have "\<not> AllChildCommandsHaveGroup c" if "GroupID sub = []"
    using a that available_without_group [of sub c] by blast
  ultimately show "sub \<in> set (renderedCommands c)"
    using a by (auto simp: renderedCommands_iff listed_def)
qed

theorem checked_tree_groups_registered_witness:
  "checkCommandGroups (AddCommand RootCmd [hiddenHelpCmd, seqCmd, versionCmd])
   \<and> AddCommand RootCmd [hiddenHelpCmd, seqCmd, versionCmd]
        \<in> set (nodes (AddCommand RootCmd [hiddenHelpCmd, seqCmd, versionCmd]))
   \<and> seqCmd \<in> set (commands (AddCommand RootCmd [hiddenHelpCmd, seqCmd, versionCmd]))
   \<and> GroupID seqCmd = ''basic''
   \<and> ContainsGroup (AddCommand RootCmd [hiddenHelpCmd, seqCmd, versionCmd]) ''basic''
   \<and> strayCmd \<in> set (commands (AddCommand RootCmd [hiddenHelpCmd, seqCmd, strayCmd]))
   \<and> GroupID strayCmd = ''nosuch''
   \<and> \<not> ContainsGroup (AddCommand RootCmd [hiddenHelpCmd, seqCmd, strayCmd]) ''nosuch''
   \<and> \<not> checkCommandGroups (AddCommand RootCmd [hiddenHelpCmd, seqCmd, strayCmd])
   \<and> helpInRun (AddCommand RootCmd [hiddenHelpCmd, seqCmd, strayCmd])
        (AddCommand RootCmd [hiddenHelpCmd, seqCmd, strayCmd]) = None
   \<and> versionCmd
        \<in> set (snd (additionalSection (AddCommand RootCmd [hiddenHelpCmd, seqCmd, versionCmd])))
   \<and> GroupID versionCmd = []
   \<and> HasAvailableSubCommands (AddCommand RootCmd [hiddenHelpCmd, seqCmd, versionCmd])
   \<and> IsAvailableCommand (helpCommand (AddCommand RootCmd [hiddenHelpCmd, seqCmd, versionCmd]))
        seqCmd
   \<and> seqCmd \<in> set (renderedCommands (AddCommand RootCmd [hiddenHelpCmd, seqCmd, versionCmd]))"
  using checked_tree_groups_registered [of "AddCommand RootCmd [hiddenHelpCmd, seqCmd, versionCmd]"
      "AddCommand RootCmd [hiddenHelpCmd, seqCmd, versionCmd]" seqCmd]
    checked_tree_groups_registered [of "AddCommand RootCmd [hiddenHelpCmd, seqCmd, strayCmd]"
      "AddCommand RootCmd [hiddenHelpCmd, seqCmd, strayCmd]" strayCmd]
    checked_tree_groups_registered [of "AddCommand RootCmd [hiddenHelpCmd, seqCmd, versionCmd]"
      "AddCommand RootCmd [hiddenHelpCmd, seqCmd, versionCmd]" versionCmd]
  by (simp add: helpInRun_def ContainsGroup_def AddCommand_def AddGroup_def RootCmd_def
      SetHelpCommand_def RootCmdLiteral_def block_defs strayCmd_def seqCmd_def
      versionCmd_def hiddenHelpCmd_def seqkitGroups_def)

end
